theory Spec2Isabelle
  imports Complex_Main
begin

section \<open>The TensorFlow saver of ml-agents (mlagents/trainers/saver/tf\_saver.py)\<close>

text \<open>
  \<^verbatim>\<open>TFSaver\<close> is glue between a policy object and the checkpoint functions of the
  training framework. The embedding keeps the eight attributes of the object in one
  record together with the part of the outside world its methods act on: the variables
  held by each framework session, and the sequence of calls made to the framework, to
  the policy and to the logger. What the framework answers (whether a checkpoint state
  is found, whether a restore succeeds) is not decided by this file; it is a parameter
  of every method, collected in the record \<open>env\<close>.
\<close>

subsection \<open>Data\<close>

type_synonym path = string

datatype graph = Graph nat

datatype session = Session nat

type_synonym tensor = string

text \<open>
  The variables a session holds: the global step counter, the integer variables read
  through the version tensors, and the trainable parameters.
\<close>

record session_vars =
  global_step :: int
  int_vars :: "tensor \<Rightarrow> int"
  weights :: "string \<rightharpoonup> real"

text \<open>
  The attributes of \<^verbatim>\<open>TFPolicy\<close> that the saver reads. \<^verbatim>\<open>version_tensors\<close> is
  either \<^verbatim>\<open>None\<close> or the three tensors (major, minor, patch) whose components the
  warning of \<^verbatim>\<open>_check_model_version\<close> prints as \<^verbatim>\<open>loaded_ver[0]\<close>,
  \<^verbatim>\<open>loaded_ver[1]\<close>, \<^verbatim>\<open>loaded_ver[2]\<close>.
\<close>

record tf_policy =
  pol_graph :: graph
  pol_sess :: session
  version_tensors :: "(tensor \<times> tensor \<times> tensor) option"

text \<open>\<^verbatim>\<open>tf.train.Saver(max_to_keep=n)\<close>, built while the given graph is the default one.\<close>

datatype train_saver = TrainSaver (saver_graph: graph) (max_to_keep: int)

datatype checkpoint_state = CheckpointState (model_checkpoint_path: path)

text \<open>
  Modelled from the spec: \<^verbatim>\<open>SerializationSettings\<close> is declared in
  mlagents/model\_serialization.py, which is not part of the source at hand; the spec
  calls it the configuration describing desired export formats and target capability
  flags. The saver only passes it on.
\<close>

record serialization_settings =
  export_formats :: "string list"
  capability_flags :: "string list"

record trainer_settings =
  init_path :: "path option"
  ts_keep_checkpoints :: int

datatype exn =
    UnityPolicyException string
  | NameError string
  | AttributeError string
  | NotFoundError string
  | FrameworkError string

datatype log_msg =
    LoadingModelFrom path
  | StartingFromStepZero path
  | ResumingFromStep int
  | VersionMismatch "int \<times> int \<times> int" string

text \<open>Every call that leaves the saver, in the order it is made.\<close>

datatype event =
    LogInfo log_msg
  | LogWarning log_msg
  | SaverSave train_saver "session option" path
  | WriteGraph graph path string bool
  | ExportPolicyModel path serialization_settings "graph option" "session option"
  | GetCheckpointState path
  | SaverRestore train_saver session path
  | PolicySetStep int
  | PolicyInitializeGraph

record world =
  model_path :: path
  initialize_path :: "path option"
  keep_checkpoints :: int
  load :: bool
  policy :: "tf_policy option"
  graph :: "graph option"
  sess :: "session option"
  saver :: "train_saver option"
  sessions :: "session \<Rightarrow> session_vars"
  trace :: "event list"

text \<open>
  What the saver is given from outside its file:
  \<^item> \<open>get_checkpoint_state\<close>: the answer of \<^verbatim>\<open>tf.train.get_checkpoint_state\<close>;
  \<^item> \<open>restore\<close>: what \<^verbatim>\<open>tf.train.Saver.restore\<close> does to the variables of the
    session for a checkpoint path, and the exception it raises, if any;
  \<^item> \<open>initialize_graph\<close>: what \<^verbatim>\<open>TFPolicy._initialize_graph\<close> does to the
    variables of the policy's session;
  \<^item> \<open>version\<close>: the constant \<^verbatim>\<open>mlagents.trainers.__version__\<close>;
  \<^item> \<open>convert_version_string\<close>: \<^verbatim>\<open>TFPolicy._convert_version_string\<close>.
\<close>

record env =
  get_checkpoint_state :: "path \<Rightarrow> checkpoint_state option"
  restore :: "path \<Rightarrow> session_vars \<Rightarrow> exn option \<times> session_vars"
  initialize_graph :: "tf_policy \<Rightarrow> session_vars \<Rightarrow> session_vars"
  version :: string
  convert_version_string :: "string \<Rightarrow> int list"

type_synonym outcome = "exn option \<times> world"

subsection \<open>Names bound in the module\<close>

text \<open>
  The names the module binds at top level: those of its eleven import statements, then
  \<^verbatim>\<open>logger\<close> and the class itself. A name that is neither here nor a Python
  builtin raises \<^verbatim>\<open>NameError\<close> when it is evaluated.
\<close>

definition module_globals :: "string list" where
  "module_globals =
     [''Tuple'', ''LooseVersion'', ''UnityException'', ''get_logger'', ''tf'', ''Saver'',
      ''SerializationSettings'', ''export_policy_model'', ''BehaviorSpec'',
      ''TrainerSettings'', ''TFPolicy'', ''__version__'', ''logger'', ''TFSaver'']"

text \<open>The exception that \<^verbatim>\<open>raise UnityPolicyException(msg)\<close> raises in this module.\<close>

definition raise_UnityPolicyException :: "string \<Rightarrow> exn" where
  "raise_UnityPolicyException msg =
     (if ''UnityPolicyException'' \<in> set module_globals
      then UnityPolicyException msg
      else NameError ''UnityPolicyException'')"

definition could_not_be_loaded :: "path \<Rightarrow> string" where
  "could_not_be_loaded p =
     ''The model '' @ p @ '' could not be loaded. Make sure you specified the right ''
     @ ''--run-id and that the previous run you are loading from had the same ''
     @ ''behavior names.''"

definition found_but_not_loaded :: "path \<Rightarrow> string" where
  "found_but_not_loaded p =
     ''The model '' @ p @ '' was found but could not be loaded. Make ''
     @ ''sure the model is from the same version of ML-Agents, has the same behavior parameters, ''
     @ ''and is using the same trainer configuration as the current run.''"

subsection \<open>Calls into the policy and the framework\<close>

definition emit :: "event \<Rightarrow> world \<Rightarrow> world" where
  "emit e w = w\<lparr>trace := trace w @ [e]\<rparr>"

text \<open>
  Modelled from the spec: \<^verbatim>\<open>TFPolicy._set_step\<close> and
  \<^verbatim>\<open>TFPolicy.get_current_step\<close> are defined in mlagents/trainers/policy/tf\_policy.py,
  which is not part of the source at hand; they write and read the step counter the
  policy keeps in its session.
\<close>

definition set_step :: "tf_policy \<Rightarrow> int \<Rightarrow> world \<Rightarrow> world" where
  "set_step p n w =
     emit (PolicySetStep n)
       (w\<lparr>sessions := (sessions w)(pol_sess p := (sessions w (pol_sess p))\<lparr>global_step := n\<rparr>)\<rparr>)"

definition get_current_step :: "tf_policy \<Rightarrow> world \<Rightarrow> int" where
  "get_current_step p w = global_step (sessions w (pol_sess p))"

text \<open>\<^verbatim>\<open>self.policy._initialize_graph()\<close>; without a policy the attribute lookup fails.\<close>

definition policy_initialize_graph :: "env \<Rightarrow> world \<Rightarrow> outcome" where
  "policy_initialize_graph E w =
     (case policy w of
        None \<Rightarrow> (Some (AttributeError ''_initialize_graph''), w)
      | Some p \<Rightarrow>
          (None,
           emit PolicyInitializeGraph
             (w\<lparr>sessions :=
                  (sessions w)(pol_sess p := initialize_graph E p (sessions w (pol_sess p)))\<rparr>)))"

text \<open>
  \<^verbatim>\<open>self.saver.restore(self.sess, p)\<close>. Without a saver the attribute lookup
  fails; a call without a session fails inside the framework.
\<close>

definition saver_restore :: "env \<Rightarrow> path \<Rightarrow> world \<Rightarrow> outcome" where
  "saver_restore E p w =
     (case saver w of
        None \<Rightarrow> (Some (AttributeError ''restore''), w)
      | Some sv \<Rightarrow>
          (case sess w of
             None \<Rightarrow> (Some (FrameworkError ''restore without a session''), w)
           | Some h \<Rightarrow>
               (let (r, vars) = restore E p (sessions w h)
                in (r, emit (SaverRestore sv h p) (w\<lparr>sessions := (sessions w)(h := vars)\<rparr>)))))"

fun is_NotFoundError :: "exn \<Rightarrow> bool" where
  "is_NotFoundError (NotFoundError m) = True"
| "is_NotFoundError e = False"

subsection \<open>The methods of TFSaver\<close>

text \<open>
  \<^verbatim>\<open>__init__\<close>; its argument \<^verbatim>\<open>behavior_spec\<close> is not used. The sessions and the
  calls made so far are those of the world the saver is created in.
\<close>

definition TFSaver_init ::
  "trainer_settings \<Rightarrow> path \<Rightarrow> bool \<Rightarrow> (session \<Rightarrow> session_vars) \<Rightarrow> event list \<Rightarrow> world" where
  "TFSaver_init ts mp ld ss tr =
     \<lparr>model_path = mp, initialize_path = init_path ts,
      keep_checkpoints = ts_keep_checkpoints ts, load = ld,
      policy = None, graph = None, sess = None, saver = None,
      sessions = ss, trace = tr\<rparr>"

definition unregistered :: "world \<Rightarrow> bool" where
  "unregistered w = (policy w = None)"

definition register :: "tf_policy option \<Rightarrow> world \<Rightarrow> world" where
  "register mdl w =
     (case mdl of
        None \<Rightarrow> w
      | Some p \<Rightarrow>
          w\<lparr>policy := Some p, graph := Some (pol_graph p), sess := Some (pol_sess p),
            saver := Some (TrainSaver (pol_graph p) (keep_checkpoints w))\<rparr>)"

definition export :: "path \<Rightarrow> serialization_settings \<Rightarrow> world \<Rightarrow> outcome" where
  "export output_filepath settings w =
     (None, emit (ExportPolicyModel output_filepath settings (graph w) (sess w)) w)"

definition save_checkpoint :: "path \<Rightarrow> serialization_settings \<Rightarrow> world \<Rightarrow> outcome" where
  "save_checkpoint checkpoint_path settings w =
     (case graph w of
        None \<Rightarrow> (Some (AttributeError ''as_default''), w)
      | Some g \<Rightarrow>
          (let w1 = (case saver w of
                       None \<Rightarrow> w
                     | Some sv \<Rightarrow> emit (SaverSave sv (sess w) (checkpoint_path @ ''.ckpt'')) w);
               w2 = emit (WriteGraph g (model_path w1) ''raw_graph_def.pb'' False) w1
           in export checkpoint_path settings w2))"

definition check_model_version :: "env \<Rightarrow> string \<Rightarrow> world \<Rightarrow> outcome" where
  "check_model_version E v w =
     (case policy w of
        None \<Rightarrow> (Some (AttributeError ''version_tensors''), w)
      | Some p \<Rightarrow>
          (case version_tensors p of
             None \<Rightarrow> (None, w)
           | Some (t0, t1, t2) \<Rightarrow>
               (case sess w of
                  None \<Rightarrow> (Some (FrameworkError ''eval without a session''), w)
                | Some h \<Rightarrow>
                    (let vs = int_vars (sessions w h);
                         loaded_ver = (vs t0, vs t1, vs t2)
                     in if [vs t0, vs t1, vs t2] \<noteq> convert_version_string E v
                        then (None, emit (LogWarning (VersionMismatch loaded_ver v)) w)
                        else (None, w)))))"

definition load_graph :: "env \<Rightarrow> path \<Rightarrow> bool \<Rightarrow> world \<Rightarrow> outcome" where
  "load_graph E mp reset_global_steps w =
     (case graph w of
        None \<Rightarrow> (Some (AttributeError ''as_default''), w)
      | Some g \<Rightarrow>
          (let w1 = emit (GetCheckpointState mp) (emit (LogInfo (LoadingModelFrom mp)) w)
           in case get_checkpoint_state E mp of
                None \<Rightarrow> (Some (raise_UnityPolicyException (could_not_be_loaded mp)), w1)
              | Some ckpt \<Rightarrow>
                  (case saver_restore E (model_checkpoint_path ckpt) w1 of
                     (Some e, w2) \<Rightarrow>
                       if is_NotFoundError e
                       then (Some (raise_UnityPolicyException (found_but_not_loaded mp)), w2)
                       else (Some e, w2)
                   | (None, w2) \<Rightarrow>
                       (case check_model_version E (version E) w2 of
                          (Some e, w3) \<Rightarrow> (Some e, w3)
                        | (None, w3) \<Rightarrow>
                            (case policy w3 of
                               None \<Rightarrow>
                                 (Some (AttributeError
                                    (if reset_global_steps then ''_set_step''
                                     else ''get_current_step'')), w3)
                             | Some p \<Rightarrow>
                                 if reset_global_steps
                                 then (None,
                                       emit (LogInfo (StartingFromStepZero (model_path w3)))
                                         (set_step p 0 w3))
                                 else (None,
                                       emit (LogInfo (ResumingFromStep (get_current_step p w3)))
                                         w3))))))"

definition maybe_load :: "env \<Rightarrow> world \<Rightarrow> outcome" where
  "maybe_load E w =
     (let reset_steps = \<not> load w
      in case initialize_path w of
           Some ip \<Rightarrow> load_graph E ip reset_steps w
         | None \<Rightarrow>
             if load w then load_graph E (model_path w) reset_steps w
             else policy_initialize_graph E w)"


subsection \<open>Registration, and a concrete saver\<close>

text \<open>The four attributes that \<^verbatim>\<open>register\<close> assigns.\<close>

definition binding ::
  "world \<Rightarrow> tf_policy option \<times> graph option \<times> session option \<times> train_saver option" where
  "binding w = (policy w, graph w, sess w, saver w)"

text \<open>
  The saver is registered with policy \<open>p\<close>: its attributes are the ones
  \<^verbatim>\<open>register(p)\<close> assigns.
\<close>

definition bound_to :: "tf_policy \<Rightarrow> world \<Rightarrow> bool" where
  "bound_to p w =
     (binding w =
        (Some p, Some (pol_graph p), Some (pol_sess p),
         Some (TrainSaver (pol_graph p) (keep_checkpoints w))))"

text \<open>
  A policy with version tensors, a session at step 3, and a framework that finds a
  checkpoint written at step 7 under the directory \<open>init\<close>, finds a checkpoint that does
  not fit the graph under \<open>broken\<close>, and finds nothing anywhere else.
\<close>

definition ex_policy :: tf_policy where
  "ex_policy = \<lparr>pol_graph = Graph 0, pol_sess = Session 0,
                version_tensors = Some (''major'', ''minor'', ''patch'')\<rparr>"

definition ex_vars :: session_vars where
  "ex_vars = \<lparr>global_step = 3, int_vars = (\<lambda>t. 0), weights = Map.empty\<rparr>"

definition ex_settings :: "path option \<Rightarrow> trainer_settings" where
  "ex_settings ip = \<lparr>init_path = ip, ts_keep_checkpoints = 5\<rparr>"

definition ex_env :: env where
  "ex_env =
     \<lparr>get_checkpoint_state =
        (\<lambda>d. if d = ''init'' then Some (CheckpointState ''init/model-7.ckpt'')
              else if d = ''broken'' then Some (CheckpointState ''broken/model-7.ckpt'')
              else None),
      restore =
        (\<lambda>p v. if p = ''init/model-7.ckpt'' then (None, v\<lparr>global_step := 7\<rparr>)
                else (Some (NotFoundError p), v)),
      initialize_graph = (\<lambda>p v. v\<lparr>global_step := 0\<rparr>),
      version = ''0.20.0'',
      convert_version_string = (\<lambda>s. [0, 20, 0])\<rparr>"

definition ex_world :: "path option \<Rightarrow> bool \<Rightarrow> world" where
  "ex_world ip ld =
     register (Some ex_policy) (TFSaver_init (ex_settings ip) ''run'' ld (\<lambda>h. ex_vars) [])"







lemmas ex_defs = ex_world_def ex_env_def ex_settings_def ex_vars_def ex_policy_def
  TFSaver_init_def register_def

lemmas op_defs = maybe_load_def load_graph_def check_model_version_def saver_restore_def
  policy_initialize_graph_def set_step_def get_current_step_def emit_def
  save_checkpoint_def export_def Let_def

subsection \<open>No method but register assigns the four attributes\<close>

lemma check_model_version_binding:
  "binding (snd (check_model_version E v w)) = binding w"
  by (simp add: check_model_version_def binding_def emit_def Let_def
      split: option.splits prod.splits)

lemma saver_restore_binding: "binding (snd (saver_restore E cp w)) = binding w"
  by (simp add: saver_restore_def binding_def emit_def Let_def
      split: option.splits prod.splits)

lemma load_graph_binding: "binding (snd (load_graph E mp r w)) = binding w"
  by (auto simp add: op_defs binding_def split: option.splits prod.splits)

lemma save_checkpoint_binding: "binding (snd (save_checkpoint cp st w)) = binding w"
  by (simp add: save_checkpoint_def export_def binding_def emit_def Let_def
      split: option.splits)

lemma maybe_load_binding: "binding (snd (maybe_load E w)) = binding w"
proof (cases "initialize_path w")
  case None
  show ?thesis
  proof (cases "load w")
    case True
    with None show ?thesis by (simp add: maybe_load_def load_graph_binding)
  next
    case False
    with None show ?thesis
      by (simp add: maybe_load_def policy_initialize_graph_def binding_def emit_def
          split: option.splits)
  qed
next
  case (Some ip)
  then show ?thesis by (simp add: maybe_load_def load_graph_binding)
qed

lemma register_bound_to: "bound_to p (register (Some p) w)"
  by (simp add: bound_to_def binding_def register_def)

lemma ex_world_bound_to: "bound_to ex_policy (ex_world ip ld)"
  by (simp add: ex_world_def register_bound_to)









subsection \<open>The calls a load makes\<close>

text \<open>
  A load only appends to the sequence of calls; it sets the step only to zero and only
  when asked to reset; with a graph at hand it starts by logging and by asking the
  framework for the checkpoint state of the path.
\<close>

lemma load_graph_events:
  "\<exists>evs. trace (snd (load_graph E mp r w)) = trace w @ evs
         \<and> (\<forall>n. PolicySetStep n \<in> set evs \<longrightarrow> n = 0 \<and> r)
         \<and> (graph w \<noteq> None \<longrightarrow>
              (\<exists>evs'. evs = LogInfo (LoadingModelFrom mp) # GetCheckpointState mp # evs'))"
  by (auto simp add: op_defs split: option.splits prod.splits)

lemma maybe_load_events:
  "\<exists>evs. trace (snd (maybe_load E w)) = trace w @ evs
         \<and> (\<forall>n. PolicySetStep n \<in> set evs \<longrightarrow>
               n = 0 \<and> \<not> load w \<and> initialize_path w \<noteq> None)"
proof (cases "initialize_path w")
  case None
  show ?thesis
  proof (cases "load w")
    case True
    with None load_graph_events [of E "model_path w" False w] show ?thesis
      by (auto simp add: maybe_load_def)
  next
    case False
    with None show ?thesis
      by (simp add: maybe_load_def policy_initialize_graph_def emit_def split: option.splits)
  qed
next
  case (Some ip)
  with load_graph_events [of E ip "\<not> load w" w] show ?thesis
    by (auto simp add: maybe_load_def)
qed

text \<open>A load that returns had a registered saver, a checkpoint state and a restore that raised nothing.\<close>

lemma load_graph_success:
  assumes "fst (load_graph E mp r w) = None"
  shows "\<exists>g sv h p ckpt.
           graph w = Some g \<and> saver w = Some sv \<and> sess w = Some h \<and> policy w = Some p
           \<and> get_checkpoint_state E mp = Some ckpt
           \<and> fst (restore E (model_checkpoint_path ckpt) (sessions w h)) = None"
  using assms
  by (auto simp add: op_defs split: option.splits prod.splits if_splits)

text \<open>Conversely, such a load returns, and leaves the variables as follows.\<close>

lemma load_graph_completes:
  assumes "policy w = Some p" and "graph w = Some g" and "sess w = Some h"
    and "saver w = Some sv" and "get_checkpoint_state E mp = Some ckpt"
    and "restore E (model_checkpoint_path ckpt) (sessions w h) = (None, vars)"
  shows "fst (load_graph E mp r w) = None"
    and "r \<Longrightarrow> get_current_step p (snd (load_graph E mp r w)) = 0"
    and "r \<Longrightarrow> sessions (snd (load_graph E mp r w)) =
           ((sessions w)(h := vars))
             (pol_sess p := (((sessions w)(h := vars)) (pol_sess p))\<lparr>global_step := 0\<rparr>)"
    and "\<not> r \<Longrightarrow> sessions (snd (load_graph E mp r w)) = (sessions w)(h := vars)"
    and "\<not> r \<Longrightarrow> \<exists>evs. trace (snd (load_graph E mp r w)) =
           trace w @ evs
             @ [LogInfo (ResumingFromStep (global_step (((sessions w)(h := vars)) (pol_sess p))))]
           \<and> (\<forall>n. PolicySetStep n \<notin> set evs)"
    and "r \<Longrightarrow> \<exists>evs. trace (snd (load_graph E mp r w)) =
           trace w @ evs @ [PolicySetStep 0, LogInfo (StartingFromStepZero (model_path w))]"
  using assms
  by (auto simp add: op_defs split: option.splits prod.splits)

text \<open>The whole outcome of such a load: the variables it leaves and the calls it makes.\<close>

lemma load_graph_exact:
  assumes "policy w = Some p" and "graph w = Some g" and "sess w = Some h"
    and "saver w = Some sv" and "get_checkpoint_state E mp = Some ckpt"
    and "restore E (model_checkpoint_path ckpt) (sessions w h) = (None, vars)"
  shows "load_graph E mp r w =
           (None,
            w\<lparr>sessions :=
                (if r
                 then ((sessions w)(h := vars))
                        (pol_sess p := (((sessions w)(h := vars)) (pol_sess p))\<lparr>global_step := 0\<rparr>)
                 else (sessions w)(h := vars)),
              trace :=
                trace w
                @ [LogInfo (LoadingModelFrom mp), GetCheckpointState mp,
                   SaverRestore sv h (model_checkpoint_path ckpt)]
                @ (case version_tensors p of
                     None \<Rightarrow> []
                   | Some (t0, t1, t2) \<Rightarrow>
                       if [int_vars vars t0, int_vars vars t1, int_vars vars t2]
                          \<noteq> convert_version_string E (version E)
                       then [LogWarning (VersionMismatch
                               (int_vars vars t0, int_vars vars t1, int_vars vars t2)
                               (version E))]
                       else [])
                @ (if r
                   then [PolicySetStep 0, LogInfo (StartingFromStepZero (model_path w))]
                   else [LogInfo (ResumingFromStep
                           (global_step (((sessions w)(h := vars)) (pol_sess p))))])\<rparr>)"
  using assms
  by (auto simp add: op_defs split: option.splits prod.splits)

text \<open>
  The two \<^verbatim>\<open>raise UnityPolicyException(...)\<close> statements: the module binds
  \<^verbatim>\<open>UnityException\<close> and never \<^verbatim>\<open>UnityPolicyException\<close>, so evaluating the name is
  what raises.
\<close>

lemma load_graph_missing_checkpoint:
  assumes "graph w = Some g" and "get_checkpoint_state E mp = None"
  shows "fst (load_graph E mp r w) = Some (NameError ''UnityPolicyException'')"
  using assms
  by (simp add: load_graph_def raise_UnityPolicyException_def module_globals_def)

lemma load_graph_restore_not_found:
  assumes "graph w = Some g" and "saver w = Some sv" and "sess w = Some h"
    and "get_checkpoint_state E mp = Some ckpt"
    and "fst (restore E (model_checkpoint_path ckpt) (sessions w h)) = Some (NotFoundError m)"
  shows "fst (load_graph E mp r w) = Some (NameError ''UnityPolicyException'')"
  using assms
  by (auto simp add: load_graph_def saver_restore_def emit_def Let_def
      raise_UnityPolicyException_def module_globals_def split: prod.splits)

section \<open>The claims\<close>

text \<open>
  C1, as the specification states it: whenever \<^verbatim>\<open>initialize_path\<close> is set,
  \<^verbatim>\<open>maybe_load()\<close> loads from it and resets the step counter to zero, whatever the
  load flag. With the load flag set this fails: the load from the initialization path
  returns, \<^verbatim>\<open>_set_step\<close> is not called, and the policy is at the step of the
  checkpoint, 7.
\<close>

theorem maybe_load_initialize_path_resume_counterexample:
  "initialize_path (ex_world (Some ''init'') True) = Some ''init''
   \<and> fst (maybe_load ex_env (ex_world (Some ''init'') True)) = None
   \<and> get_current_step ex_policy (snd (maybe_load ex_env (ex_world (Some ''init'') True))) = 7
   \<and> PolicySetStep 0 \<notin> set (trace (snd (maybe_load ex_env (ex_world (Some ''init'') True))))"
  by (simp add: ex_defs op_defs)

text \<open>
  C1, amended: whenever \<^verbatim>\<open>initialize_path\<close> is set, \<^verbatim>\<open>maybe_load()\<close> is the load
  from that path, asked to reset the step exactly when the load flag is off. When it
  returns, a checkpoint state was found for the path; with the load flag off the step
  counter of the policy is zero, and with the load flag on the variables of the session,
  the step counter among them, are the ones the restore left.
\<close>

theorem maybe_load_initialize_path:
  assumes "initialize_path w = Some ip" and "policy w = Some p"
    and "fst (maybe_load E w) = None"
  shows "maybe_load E w = load_graph E ip (\<not> load w) w
         \<and> (\<exists>h ckpt. sess w = Some h \<and> get_checkpoint_state E ip = Some ckpt
               \<and> (if load w
                   then sessions (snd (maybe_load E w)) =
                          (sessions w)
                            (h := snd (restore E (model_checkpoint_path ckpt) (sessions w h)))
                   else get_current_step p (snd (maybe_load E w)) = 0))"
proof -
  have eq: "maybe_load E w = load_graph E ip (\<not> load w) w"
    using assms(1) by (simp add: maybe_load_def)
  with assms(3) have ok: "fst (load_graph E ip (\<not> load w) w) = None" by simp
  from load_graph_success [OF ok] assms(2) obtain g sv h ckpt where
    b: "graph w = Some g" "saver w = Some sv" "sess w = Some h"
      "get_checkpoint_state E ip = Some ckpt"
    and r: "fst (restore E (model_checkpoint_path ckpt) (sessions w h)) = None"
    by auto
  define vars where "vars = snd (restore E (model_checkpoint_path ckpt) (sessions w h))"
  with r have rv: "restore E (model_checkpoint_path ckpt) (sessions w h) = (None, vars)"
    by (simp add: prod_eq_iff)
  have "if load w
        then sessions (snd (maybe_load E w)) = (sessions w)(h := vars)
        else get_current_step p (snd (maybe_load E w)) = 0"
    using load_graph_completes(2,4) [OF assms(2) b(1) b(3) b(2) b(4) rv, of "\<not> load w"] eq
    by (cases "load w") simp_all
  with eq b show ?thesis unfolding vars_def by simp
qed

theorem maybe_load_initialize_path_witness:
  "initialize_path (ex_world (Some ''init'') False) = Some ''init''
   \<and> policy (ex_world (Some ''init'') False) = Some ex_policy
   \<and> fst (maybe_load ex_env (ex_world (Some ''init'') False)) = None
   \<and> get_current_step ex_policy (snd (maybe_load ex_env (ex_world (Some ''init'') False))) = 0"
proof -
  have h1: "initialize_path (ex_world (Some ''init'') False) = Some ''init''"
    by (simp add: ex_defs)
  have h2: "policy (ex_world (Some ''init'') False) = Some ex_policy"
    by (simp add: ex_defs)
  have h3: "fst (maybe_load ex_env (ex_world (Some ''init'') False)) = None"
    by (simp add: ex_defs op_defs)
  have h4: "\<not> load (ex_world (Some ''init'') False)"
    by (simp add: ex_defs)
  from maybe_load_initialize_path [OF h1 h2 h3] h4
  have "get_current_step ex_policy (snd (maybe_load ex_env (ex_world (Some ''init'') False))) = 0"
    by auto
  with h1 h2 h3 show ?thesis by simp
qed

text \<open>
  C2: a load from a path for which the framework finds no checkpoint state is to raise
  the descriptive exception that names the path. Run on a registered saver that resumes
  from \<open>run\<close>, where nothing is found, both \<^verbatim>\<open>_load_graph\<close> and \<^verbatim>\<open>maybe_load\<close> raise
  \<^verbatim>\<open>NameError\<close> instead.
\<close>

theorem load_graph_missing_checkpoint_raises_NameError:
  "get_checkpoint_state ex_env ''run'' = None
   \<and> fst (load_graph ex_env ''run'' False (ex_world None True))
       = Some (NameError ''UnityPolicyException'')
   \<and> fst (maybe_load ex_env (ex_world None True))
       = Some (NameError ''UnityPolicyException'')"
  by (simp add: ex_defs op_defs raise_UnityPolicyException_def module_globals_def)

text \<open>
  C3: a load whose restore raises the framework's not-found error is to raise a
  descriptive exception of its own, distinct from the one of a missing checkpoint. Run
  on \<open>broken\<close>, where the checkpoint state is found and the restore raises
  \<^verbatim>\<open>NotFoundError\<close>, \<^verbatim>\<open>_load_graph\<close> raises \<^verbatim>\<open>NameError\<close>, the same exception as
  for a path with no checkpoint state.
\<close>

theorem load_graph_restore_failure_raises_NameError:
  "get_checkpoint_state ex_env ''broken'' = Some (CheckpointState ''broken/model-7.ckpt'')
   \<and> fst (restore ex_env ''broken/model-7.ckpt'' ex_vars)
       = Some (NotFoundError ''broken/model-7.ckpt'')
   \<and> fst (load_graph ex_env ''broken'' True (ex_world (Some ''broken'') False))
       = Some (NameError ''UnityPolicyException'')
   \<and> fst (load_graph ex_env ''broken'' True (ex_world (Some ''broken'') False))
       = fst (load_graph ex_env ''missing'' True (ex_world (Some ''broken'') False))"
  by (simp add: ex_defs op_defs raise_UnityPolicyException_def module_globals_def)


text \<open>
  C4: on every restore that raised nothing, the version the checkpoint left in the
  version tensors is compared with the version of the running code, and a difference
  only logs a warning. For a registered saver \<^verbatim>\<open>_check_model_version\<close> raises
  nothing and changes nothing but the log. \<^verbatim>\<open>_load_graph\<close> returns, and what it
  leaves is known exactly: the calls it makes are the log line, the lookup of the
  checkpoint state, the restore, the warning if and only if the policy has version
  tensors and the restored version differs from the running one, and then the step
  logic; asked to reset, it calls \<^verbatim>\<open>_set_step(0)\<close> and the step is zero; otherwise
  the variables are the restored ones and it logs the step resumed from.
\<close>

theorem version_mismatch_only_warns:
  assumes "policy w = Some p" and "graph w = Some g" and "sess w = Some h"
    and "saver w = Some sv" and "get_checkpoint_state E mp = Some ckpt"
    and "restore E (model_checkpoint_path ckpt) (sessions w h) = (None, vars)"
  shows "check_model_version E v w =
           (None,
            case version_tensors p of
              None \<Rightarrow> w
            | Some (t0, t1, t2) \<Rightarrow>
                if [int_vars (sessions w h) t0, int_vars (sessions w h) t1,
                    int_vars (sessions w h) t2] \<noteq> convert_version_string E v
                then emit (LogWarning (VersionMismatch
                       (int_vars (sessions w h) t0, int_vars (sessions w h) t1,
                        int_vars (sessions w h) t2) v)) w
                else w)
         \<and> load_graph E mp r w =
           (None,
            w\<lparr>sessions :=
                (if r
                 then ((sessions w)(h := vars))
                        (pol_sess p := (((sessions w)(h := vars)) (pol_sess p))\<lparr>global_step := 0\<rparr>)
                 else (sessions w)(h := vars)),
              trace :=
                trace w
                @ [LogInfo (LoadingModelFrom mp), GetCheckpointState mp,
                   SaverRestore sv h (model_checkpoint_path ckpt)]
                @ (case version_tensors p of
                     None \<Rightarrow> []
                   | Some (t0, t1, t2) \<Rightarrow>
                       if [int_vars vars t0, int_vars vars t1, int_vars vars t2]
                          \<noteq> convert_version_string E (version E)
                       then [LogWarning (VersionMismatch
                               (int_vars vars t0, int_vars vars t1, int_vars vars t2)
                               (version E))]
                       else [])
                @ (if r
                   then [PolicySetStep 0, LogInfo (StartingFromStepZero (model_path w))]
                   else [LogInfo (ResumingFromStep
                           (global_step (((sessions w)(h := vars)) (pol_sess p))))])\<rparr>)
         \<and> (\<forall>m. (LogWarning m
                  \<in> set (drop (length (trace w)) (trace (snd (load_graph E mp r w)))))
                = (\<exists>t0 t1 t2.
                     version_tensors p = Some (t0, t1, t2)
                     \<and> [int_vars vars t0, int_vars vars t1, int_vars vars t2]
                         \<noteq> convert_version_string E (version E)
                     \<and> m = VersionMismatch
                           (int_vars vars t0, int_vars vars t1, int_vars vars t2) (version E)))
         \<and> (if r
             then get_current_step p (snd (load_graph E mp r w)) = 0
             else sessions (snd (load_graph E mp r w)) = (sessions w)(h := vars))"
proof -
  have a: "check_model_version E v w =
           (None,
            case version_tensors p of
              None \<Rightarrow> w
            | Some (t0, t1, t2) \<Rightarrow>
                if [int_vars (sessions w h) t0, int_vars (sessions w h) t1,
                    int_vars (sessions w h) t2] \<noteq> convert_version_string E v
                then emit (LogWarning (VersionMismatch
                       (int_vars (sessions w h) t0, int_vars (sessions w h) t1,
                        int_vars (sessions w h) t2) v)) w
                else w)"
    using assms(1,3)
    by (simp add: check_model_version_def Let_def split: option.splits prod.splits)
  note b = load_graph_exact [OF assms, of r]
  have c: "\<forall>m. (LogWarning m
                  \<in> set (drop (length (trace w)) (trace (snd (load_graph E mp r w)))))
                = (\<exists>t0 t1 t2.
                     version_tensors p = Some (t0, t1, t2)
                     \<and> [int_vars vars t0, int_vars vars t1, int_vars vars t2]
                         \<noteq> convert_version_string E (version E)
                     \<and> m = VersionMismatch
                           (int_vars vars t0, int_vars vars t1, int_vars vars t2) (version E))"
  proof (cases "version_tensors p")
    case None
    then show ?thesis unfolding b by auto
  next
    case (Some t)
    obtain t0 t1 t2 where "t = (t0, t1, t2)" by (cases t) auto
    with Some show ?thesis unfolding b by auto
  qed
  have d: "if r
             then get_current_step p (snd (load_graph E mp r w)) = 0
             else sessions (snd (load_graph E mp r w)) = (sessions w)(h := vars)"
    unfolding b by (simp add: get_current_step_def)
  from a b c d show ?thesis by blast
qed

text \<open>
  Witness for C4: the checkpoint under \<open>init\<close> carries version 0.0.0. Against the
  running version 0.20.0 the load logs the warning and goes on to reset the step;
  against a running version 0.0.0 it logs no warning and resumes from step 7.
\<close>

theorem version_mismatch_only_warns_witness:
  "trace (snd (load_graph ex_env ''init'' True (ex_world (Some ''init'') False))) =
     [LogInfo (LoadingModelFrom ''init''), GetCheckpointState ''init'',
      SaverRestore (TrainSaver (Graph 0) 5) (Session 0) ''init/model-7.ckpt'',
      LogWarning (VersionMismatch (0, 0, 0) ''0.20.0''),
      PolicySetStep 0, LogInfo (StartingFromStepZero ''run'')]
   \<and> fst (load_graph ex_env ''init'' True (ex_world (Some ''init'') False)) = None
   \<and> get_current_step ex_policy
        (snd (load_graph ex_env ''init'' True (ex_world (Some ''init'') False))) = 0
   \<and> trace (snd (load_graph (ex_env\<lparr>convert_version_string := (\<lambda>s. [0, 0, 0])\<rparr>) ''init'' False
                   (ex_world (Some ''init'') False))) =
     [LogInfo (LoadingModelFrom ''init''), GetCheckpointState ''init'',
      SaverRestore (TrainSaver (Graph 0) 5) (Session 0) ''init/model-7.ckpt'',
      LogInfo (ResumingFromStep 7)]"
proof -
  let ?w = "ex_world (Some ''init'') False"
  let ?E = "ex_env\<lparr>convert_version_string := (\<lambda>s. [0, 0, 0])\<rparr>"
  let ?vars = "ex_vars\<lparr>global_step := 7\<rparr>"
  have h1: "policy ?w = Some ex_policy" by (simp add: ex_defs)
  have h2: "graph ?w = Some (Graph 0)" by (simp add: ex_defs)
  have h3: "sess ?w = Some (Session 0)" by (simp add: ex_defs)
  have h4: "saver ?w = Some (TrainSaver (Graph 0) 5)" by (simp add: ex_defs)
  have h5: "get_checkpoint_state ex_env ''init'' = Some (CheckpointState ''init/model-7.ckpt'')"
    "get_checkpoint_state ?E ''init'' = Some (CheckpointState ''init/model-7.ckpt'')"
    by (simp_all add: ex_env_def)
  have h6: "restore ex_env (model_checkpoint_path (CheckpointState ''init/model-7.ckpt''))
              (sessions ?w (Session 0)) = (None, ?vars)"
    "restore ?E (model_checkpoint_path (CheckpointState ''init/model-7.ckpt''))
              (sessions ?w (Session 0)) = (None, ?vars)"
    by (simp_all add: ex_defs)
  have c: "version_tensors ex_policy = Some (''major'', ''minor'', ''patch'')"
    "pol_sess ex_policy = Session 0" "int_vars ?vars = (\<lambda>t. 0)" "global_step ?vars = 7"
    "version ex_env = ''0.20.0''" "convert_version_string ex_env = (\<lambda>s. [0, 20, 0])"
    "convert_version_string ?E = (\<lambda>s. [0, 0, 0])"
    "trace ?w = []" "model_path ?w = ''run''"
    by (simp_all add: ex_defs)
  note t1 = version_mismatch_only_warns [OF h1 h2 h3 h4 h5(1) h6(1), of "version ex_env" True,
      THEN conjunct2, THEN conjunct1]
  note t2 = version_mismatch_only_warns [OF h1 h2 h3 h4 h5(2) h6(2), of "version ex_env" False,
      THEN conjunct2, THEN conjunct1]
  show ?thesis unfolding t1 t2 by (simp add: c get_current_step_def)
qed

text \<open>
  C5: for every saver, \<^verbatim>\<open>maybe_load()\<close> takes one of three branches, in this order of
  precedence: with \<^verbatim>\<open>initialize_path\<close> set it is the load from that path; otherwise,
  with the load flag set, it is the load from \<^verbatim>\<open>model_path\<close>; otherwise it is the
  call of \<^verbatim>\<open>_initialize_graph\<close> on the policy, whose result does not depend on what
  the framework would find or restore from disk. On a registered saver the two loads
  start by asking the framework for the checkpoint state of their path, and the third
  branch returns having made the single call \<^verbatim>\<open>_initialize_graph\<close>.
\<close>

theorem maybe_load_branches:
  "(case initialize_path w of
      Some ip \<Rightarrow> maybe_load E w = load_graph E ip (\<not> load w) w
    | None \<Rightarrow>
        if load w then maybe_load E w = load_graph E (model_path w) (\<not> load w) w
        else maybe_load E w = policy_initialize_graph E w
             \<and> (\<forall>gcs rs. maybe_load (E\<lparr>get_checkpoint_state := gcs, restore := rs\<rparr>) w
                   = maybe_load E w))
   \<and> (\<forall>p g. policy w = Some p \<and> graph w = Some g \<longrightarrow>
         (case initialize_path w of
            Some ip \<Rightarrow>
              \<exists>evs. trace (snd (maybe_load E w)) =
                      trace w @ LogInfo (LoadingModelFrom ip) # GetCheckpointState ip # evs
          | None \<Rightarrow>
              if load w
              then \<exists>evs. trace (snd (maybe_load E w)) =
                          trace w @ LogInfo (LoadingModelFrom (model_path w))
                            # GetCheckpointState (model_path w) # evs
              else maybe_load E w =
                     (None,
                      w\<lparr>sessions :=
                          (sessions w)
                            (pol_sess p := initialize_graph E p (sessions w (pol_sess p))),
                        trace := trace w @ [PolicyInitializeGraph]\<rparr>)))"
proof (cases "initialize_path w")
  case None
  show ?thesis
  proof (cases "load w")
    case True
    with None load_graph_events [of E "model_path w" False w] show ?thesis
      by (auto simp add: maybe_load_def)
  next
    case False
    with None show ?thesis
      by (auto simp add: maybe_load_def policy_initialize_graph_def emit_def
          split: option.splits)
  qed
next
  case (Some ip)
  with load_graph_events [of E ip "\<not> load w" w] show ?thesis
    by (auto simp add: maybe_load_def)
qed

text \<open>Witness for C5: a registered saver with no initialization path and the load flag off.\<close>

theorem maybe_load_branches_witness:
  "policy (ex_world None False) = Some ex_policy
   \<and> graph (ex_world None False) = Some (Graph 0)
   \<and> fst (maybe_load ex_env (ex_world None False)) = None
   \<and> trace (snd (maybe_load ex_env (ex_world None False))) = [PolicyInitializeGraph]"
proof -
  let ?w = "ex_world None False"
  have h1: "policy ?w = Some ex_policy" by (simp add: ex_defs)
  have h2: "graph ?w = Some (Graph 0)" by (simp add: ex_defs)
  have h3: "initialize_path ?w = None" by (simp add: ex_defs)
  have h4: "\<not> load ?w" by (simp add: ex_defs)
  have h5: "trace ?w = []" by (simp add: ex_defs)
  from maybe_load_branches [of ?w ex_env, THEN conjunct2, rule_format, of ex_policy "Graph 0"]
    h1 h2 h3 h4
  have "maybe_load ex_env ?w =
          (None,
           ?w\<lparr>sessions :=
                (sessions ?w)
                  (pol_sess ex_policy :=
                     initialize_graph ex_env ex_policy (sessions ?w (pol_sess ex_policy))),
              trace := trace ?w @ [PolicyInitializeGraph]\<rparr>)"
    by simp
  with h1 h2 h5 show ?thesis by simp
qed

text \<open>
  C6: \<^verbatim>\<open>maybe_load()\<close> calls \<^verbatim>\<open>_set_step\<close> only with zero, and only when it loads
  from an initialization path with the load flag off; in particular, with the load flag
  set no call of \<^verbatim>\<open>_set_step\<close> is made.
\<close>

theorem maybe_load_set_step_only_on_reset:
  "\<exists>evs. trace (snd (maybe_load E w)) = trace w @ evs
         \<and> (\<forall>n. PolicySetStep n \<in> set evs \<longrightarrow>
               n = 0 \<and> initialize_path w \<noteq> None \<and> \<not> load w)
         \<and> (load w \<longrightarrow> (\<forall>n. PolicySetStep n \<notin> set evs))"
  using maybe_load_events [of E w] by blast

text \<open>Witness for C6: resuming from an initialization path makes no call of \<^verbatim>\<open>_set_step\<close>.\<close>

theorem maybe_load_set_step_only_on_reset_witness:
  "load (ex_world (Some ''init'') True)
   \<and> (\<forall>n. PolicySetStep n \<notin> set (trace (snd (maybe_load ex_env (ex_world (Some ''init'') True)))))"
proof -
  let ?w = "ex_world (Some ''init'') True"
  have h1: "load ?w" by (simp add: ex_defs)
  have h2: "trace ?w = []" by (simp add: ex_defs)
  from maybe_load_set_step_only_on_reset [of ex_env ?w] h1 h2 show ?thesis by auto
qed




text \<open>
  C8: \<^verbatim>\<open>register(None)\<close> leaves the saver, every attribute of it, and the world as
  they are; \<^verbatim>\<open>register(p)\<close> binds the saver to the policy \<open>p\<close>, to its graph and
  session, and to a new framework saver, and changes nothing else.
\<close>

theorem register_none_noop:
  "register None w = w
   \<and> policy (register (Some p) w) = Some p
   \<and> graph (register (Some p) w) = Some (pol_graph p)
   \<and> sess (register (Some p) w) = Some (pol_sess p)
   \<and> saver (register (Some p) w) = Some (TrainSaver (pol_graph p) (keep_checkpoints w))
   \<and> register (Some p) w =
       w\<lparr>policy := Some p, graph := Some (pol_graph p), sess := Some (pol_sess p),
         saver := Some (TrainSaver (pol_graph p) (keep_checkpoints w))\<rparr>"
  by (simp add: register_def)

text \<open>
  C10: \<^verbatim>\<open>unregistered\<close> holds exactly when \<^verbatim>\<open>policy\<close> is \<^verbatim>\<open>None\<close>; a new saver is
  unregistered, with all four attributes \<^verbatim>\<open>None\<close>; after \<^verbatim>\<open>register\<close> with a
  policy all four are set; no other method changes any of them. Registration is a
  precondition of \<^verbatim>\<open>save_checkpoint\<close> and \<^verbatim>\<open>_load_graph\<close>: on a saver that was never
  registered both raise \<^verbatim>\<open>AttributeError\<close>, and on a registered one
  \<^verbatim>\<open>save_checkpoint\<close> returns.
\<close>

theorem registration_invariant:
  "unregistered w = (policy w = None)
   \<and> unregistered (TFSaver_init ts mp ld ss tr)
   \<and> binding (TFSaver_init ts mp ld ss tr) = (None, None, None, None)
   \<and> policy (register (Some p) w) \<noteq> None \<and> graph (register (Some p) w) \<noteq> None
   \<and> sess (register (Some p) w) \<noteq> None \<and> saver (register (Some p) w) \<noteq> None
   \<and> \<not> unregistered (register (Some p) w)
   \<and> binding (register None w) = binding w
   \<and> binding (snd (save_checkpoint cp st w)) = binding w
   \<and> binding (snd (export cp st w)) = binding w
   \<and> binding (snd (maybe_load E w)) = binding w
   \<and> binding (snd (load_graph E lp r w)) = binding w
   \<and> binding (snd (check_model_version E v w)) = binding w
   \<and> (binding w = (None, None, None, None) \<longrightarrow>
         fst (save_checkpoint cp st w) = Some (AttributeError ''as_default'')
         \<and> fst (load_graph E lp r w) = Some (AttributeError ''as_default''))
   \<and> (bound_to p w \<longrightarrow> fst (save_checkpoint cp st w) = None)"
proof -
  have a: "unregistered w = (policy w = None)"
    "unregistered (TFSaver_init ts mp ld ss tr)"
    "binding (TFSaver_init ts mp ld ss tr) = (None, None, None, None)"
    by (simp_all add: unregistered_def TFSaver_init_def binding_def)
  have b: "policy (register (Some p) w) \<noteq> None" "graph (register (Some p) w) \<noteq> None"
    "sess (register (Some p) w) \<noteq> None" "saver (register (Some p) w) \<noteq> None"
    "\<not> unregistered (register (Some p) w)" "binding (register None w) = binding w"
    by (simp_all add: register_def unregistered_def)
  have c: "binding (snd (export cp st w)) = binding w"
    by (simp add: export_def emit_def binding_def)
  have d: "binding w = (None, None, None, None) \<longrightarrow>
         fst (save_checkpoint cp st w) = Some (AttributeError ''as_default'')
         \<and> fst (load_graph E lp r w) = Some (AttributeError ''as_default'')"
    by (simp add: binding_def save_checkpoint_def load_graph_def)
  have e: "bound_to p w \<longrightarrow> fst (save_checkpoint cp st w) = None"
    by (simp add: bound_to_def binding_def save_checkpoint_def export_def Let_def)
  from a b c d e save_checkpoint_binding [of cp st w] maybe_load_binding [of E w]
    load_graph_binding [of E lp r w] check_model_version_binding [of E v w]
  show ?thesis by simp
qed

text \<open>Witness for C10: saving before and after registration.\<close>

theorem registration_invariant_witness:
  "binding (TFSaver_init (ex_settings None) ''run'' False (\<lambda>h. ex_vars) [])
     = (None, None, None, None)
   \<and> fst (save_checkpoint ''run/model-3'' \<lparr>export_formats = [], capability_flags = []\<rparr>
            (TFSaver_init (ex_settings None) ''run'' False (\<lambda>h. ex_vars) []))
       = Some (AttributeError ''as_default'')
   \<and> bound_to ex_policy (ex_world None False)
   \<and> fst (save_checkpoint ''run/model-3'' \<lparr>export_formats = [], capability_flags = []\<rparr>
            (ex_world None False)) = None"
proof -
  let ?w0 = "TFSaver_init (ex_settings None) ''run'' False (\<lambda>h. ex_vars) []"
  let ?st = "\<lparr>export_formats = [], capability_flags = []\<rparr>"
  have h1: "binding ?w0 = (None, None, None, None)"
    by (simp add: TFSaver_init_def binding_def)
  have h2: "bound_to ex_policy (ex_world None False)" by (rule ex_world_bound_to)
  from registration_invariant [of ?w0 _ _ _ _ _ _ "''run/model-3''" ?st] h1
  have a: "fst (save_checkpoint ''run/model-3'' ?st ?w0) = Some (AttributeError ''as_default'')"
    by blast
  from registration_invariant [of "ex_world None False" _ _ _ _ _ ex_policy "''run/model-3''" ?st] h2
  have b: "fst (save_checkpoint ''run/model-3'' ?st (ex_world None False)) = None"
    by blast
  from h1 h2 a b show ?thesis by simp
qed

end
